theory Spec2Isabelle
  imports Main
begin

section \<open>Data model of \<open>process_xml.py\<close>\<close>

text \<open>
  An ElementTree element: its tag, its attribute dictionary and its children in document
  order. Attribute values are strings; a key that is absent maps to \<open>None\<close>.
  The model starts after \<open>normalize_attribute\<close> has run, so attribute names are the
  lower-case ones the rest of the script reads.
\<close>

datatype element = Element (tag: string) (attrib: "string \<rightharpoonup> string") (children: "element list")

text \<open>
  The two exceptions the record loop can raise: a dictionary lookup of an absent attribute
  (\<open>KeyError\<close>, carrying the key) and \<open>np.datetime64\<close> rejecting a string
  (\<open>ValueError\<close>, carrying the string).
\<close>

datatype error = KeyError string | ValueError string

text \<open>
  \<open>np.datetime64\<close> is library code. It enters the model as a parameter
  \<open>dt64 :: string \<Rightarrow> int option\<close>: the time point a string denotes, as a count of
  milliseconds, or \<open>None\<close> where the library raises. The difference of two time points
  followed by \<open>.astype(int)\<close> is then integer subtraction. Integers are unbounded here;
  the 64-bit range of the library's counts is not modelled.
\<close>

type_synonym datetime64 = "string \<Rightarrow> int option"

text \<open>The dictionary built by \<open>create_pause_counts_dict\<close>, one field per key.\<close>

record pause_counts =
  duration_300 :: int
  count_300 :: int
  duration_500 :: int
  count_500 :: int
  duration_1000 :: int
  count_1000 :: int
  total_pause_ms :: int
  total_duration :: int

text \<open>
  A row of \<open>all_pauses_data\<close>: record id, segment id, the pause (Python \<open>None\<close> for an
  omitted keystroke) and the note.
\<close>

record audit_row =
  audit_record_id :: string
  audit_segment_id :: string
  pause_duration :: "int option"
  audit_notes :: string

text \<open>A row of \<open>categorized_data\<close>, one field per entry of \<open>columns\<close>, in that order.\<close>

record summary_row =
  col_record_id :: string
  col_segment_id :: string
  col_duration_300 :: int
  col_count_300 :: int
  col_duration_500 :: int
  col_count_500 :: int
  col_duration_1s :: int
  col_count_1s :: int
  col_keystrokes :: nat
  col_active_ms :: string
  col_record_duration :: int
  col_total_duration :: int

section \<open>The pause classifier\<close>

definition create_pause_counts_dict :: pause_counts where
  "create_pause_counts_dict =
     \<lparr>duration_300 = 0, count_300 = 0, duration_500 = 0, count_500 = 0,
      duration_1000 = 0, count_1000 = 0, total_pause_ms = 0, total_duration = 0\<rparr>"

text \<open>The three \<open>if\<close> statements run one after the other, then the total is updated.\<close>

definition categorize_pause :: "pause_counts \<Rightarrow> int \<Rightarrow> pause_counts" where
  "categorize_pause counts pause_ms =
     (let c1 = (if pause_ms \<ge> 300
                then counts\<lparr>duration_300 := duration_300 counts + pause_ms,
                            count_300 := count_300 counts + 1\<rparr>
                else counts);
          c2 = (if pause_ms \<ge> 500
                then c1\<lparr>duration_500 := duration_500 c1 + pause_ms,
                        count_500 := count_500 c1 + 1\<rparr>
                else c1);
          c3 = (if pause_ms \<ge> 1000
                then c2\<lparr>duration_1000 := duration_1000 c2 + pause_ms,
                        count_1000 := count_1000 c2 + 1\<rparr>
                else c2)
      in c3\<lparr>total_duration := total_duration c3 + pause_ms\<rparr>)"

section \<open>The event filter\<close>

text \<open>\<open>e.attrib[k]\<close>: the value, or \<open>KeyError\<close> when the key is absent.\<close>

definition get_attr :: "element \<Rightarrow> string \<Rightarrow> error + string" where
  "get_attr e k = (case attrib e k of None \<Rightarrow> Inl (KeyError k) | Some v \<Rightarrow> Inr v)"

text \<open>A string is truthy in Python exactly when it is not empty.\<close>

definition truthy :: "element \<Rightarrow> string \<Rightarrow> error + bool" where
  "truthy e k = (case get_attr e k of Inl err \<Rightarrow> Inl err | Inr v \<Rightarrow> Inr (v \<noteq> []))"

definition falsy :: "element \<Rightarrow> string \<Rightarrow> error + bool" where
  "falsy e k = (case get_attr e k of Inl err \<Rightarrow> Inl err | Inr v \<Rightarrow> Inr (v = []))"

definition attr_is :: "element \<Rightarrow> string \<Rightarrow> string \<Rightarrow> error + bool" where
  "attr_is e k s = (case get_attr e k of Inl err \<Rightarrow> Inl err | Inr v \<Rightarrow> Inr (v = s))"

text \<open>
  Python's \<open>a and b\<close>: the right operand is evaluated only when the left one is true, so
  an exception of the right operand is raised only then.
\<close>

definition and_then :: "error + bool \<Rightarrow> error + bool \<Rightarrow> error + bool" where
  "and_then a b = (case a of Inl err \<Rightarrow> Inl err | Inr x \<Rightarrow> (if x then b else Inr False))"

text \<open>The condition of the \<open>if\<close> of \<open>valid_keystroke\<close>.\<close>

definition system_keystroke :: "element \<Rightarrow> error + bool" where
  "system_keystroke keystroke =
     and_then (and_then (truthy keystroke ''origin'') (truthy keystroke ''system''))
              (falsy keystroke ''key'')"

text \<open>The condition of its \<open>elif\<close>.\<close>

definition empty_keystroke :: "element \<Rightarrow> error + bool" where
  "empty_keystroke keystroke =
     and_then (and_then (and_then (and_then (and_then
        (falsy keystroke ''selection'')
        (falsy keystroke ''text''))
        (falsy keystroke ''key''))
        (attr_is keystroke ''shift'' ''False''))
        (attr_is keystroke ''ctrl'' ''False''))
        (attr_is keystroke ''alt'' ''False'')"

definition valid_keystroke :: "element \<Rightarrow> error + bool" where
  "valid_keystroke keystroke =
     (case system_keystroke keystroke of
        Inl err \<Rightarrow> Inl err
      | Inr sys \<Rightarrow>
          if sys then Inr False
          else (case empty_keystroke keystroke of
                  Inl err \<Rightarrow> Inl err
                | Inr emp \<Rightarrow> if emp then Inr False else Inr True))"

section \<open>The record loop of \<open>process_file\<close>\<close>

text \<open>
  \<open>record.findall('.//ks')\<close>: every descendant of the record whose tag is \<open>ks\<close>, in
  document order.
\<close>

fun descendants :: "element \<Rightarrow> element list" where
  "descendants (Element t a cs) = concat (map (\<lambda>c. c # descendants c) cs)"

definition findall_ks :: "element \<Rightarrow> element list" where
  "findall_ks r = filter (\<lambda>e. tag e = ''ks'') (descendants r)"

text \<open>\<open>np.datetime64(e.attrib[k])\<close>.\<close>

definition datetime_attr :: "datetime64 \<Rightarrow> element \<Rightarrow> string \<Rightarrow> error + int" where
  "datetime_attr dt64 e k =
     (case get_attr e k of
        Inl err \<Rightarrow> Inl err
      | Inr v \<Rightarrow> (case dt64 v of None \<Rightarrow> Inl (ValueError v) | Some t \<Rightarrow> Inr t))"

text \<open>
  The variables the \<open>for ks in keystrokes\<close> loop updates. \<open>all_pauses_data\<close> holds the
  rows appended while the current record is processed.
\<close>

record walk_state =
  valid_keystroke_count :: nat
  last_milestone :: int
  counts :: pause_counts
  all_pauses_data :: "audit_row list"

fun walk :: "datetime64 \<Rightarrow> string \<Rightarrow> string \<Rightarrow> element list \<Rightarrow> walk_state \<Rightarrow> error + walk_state" where
  "walk dt64 record_id segment_id [] st = Inr st"
| "walk dt64 record_id segment_id (ks # rest) st =
     (case valid_keystroke ks of
        Inl err \<Rightarrow> Inl err
      | Inr ok \<Rightarrow>
          if ok then
            (case datetime_attr dt64 ks ''created'' of
               Inl err \<Rightarrow> Inl err
             | Inr created_dt \<Rightarrow>
                 let diff_ms = created_dt - last_milestone st
                 in walk dt64 record_id segment_id rest
                      (st\<lparr>valid_keystroke_count := valid_keystroke_count st + 1,
                          last_milestone := created_dt,
                          counts := categorize_pause (counts st) diff_ms,
                          all_pauses_data := all_pauses_data st @
                            [\<lparr>audit_record_id = record_id, audit_segment_id = segment_id,
                              pause_duration = Some diff_ms, audit_notes = []\<rparr>]\<rparr>))
          else walk dt64 record_id segment_id rest
                 (st\<lparr>all_pauses_data := all_pauses_data st @
                       [\<lparr>audit_record_id = record_id, audit_segment_id = segment_id,
                         pause_duration = None, audit_notes = ''Omitted ks''\<rparr>]\<rparr>))"

text \<open>
  The body of the record loop from \<open>pause_counts = create_pause_counts_dict()\<close> to the end
  of the \<open>if / elif / else\<close>: it yields the final dictionary, the final
  \<open>keystrokes_count\<close> and the audit rows appended for this record.
\<close>

definition one_invalid :: "element list \<Rightarrow> error + bool" where
  "one_invalid keystrokes =
     (if length keystrokes = 1
      then (case valid_keystroke (keystrokes ! 0) of
              Inl err \<Rightarrow> Inl err | Inr ok \<Rightarrow> Inr (\<not> ok))
      else Inr False)"

definition count_pauses ::
  "datetime64 \<Rightarrow> string \<Rightarrow> string \<Rightarrow> int \<Rightarrow> int \<Rightarrow> element list \<Rightarrow>
     error + (pause_counts \<times> nat \<times> audit_row list)" where
  "count_pauses dt64 record_id segment_id record_started_dt record_ended_dt keystrokes =
     (let duration_ms = record_ended_dt - record_started_dt;
          pause_counts = create_pause_counts_dict;
          keystrokes_count = length keystrokes
      in if keystrokes_count = 0 then
           Inr (categorize_pause pause_counts duration_ms, keystrokes_count,
                [\<lparr>audit_record_id = record_id, audit_segment_id = segment_id,
                  pause_duration = Some duration_ms, audit_notes = ''No ks''\<rparr>])
         else
           (case one_invalid keystrokes of
              Inl err \<Rightarrow> Inl err
            | Inr single \<Rightarrow>
                if single then
                  Inr (categorize_pause pause_counts duration_ms, 0,
                       [\<lparr>audit_record_id = record_id, audit_segment_id = segment_id,
                         pause_duration = Some duration_ms, audit_notes = ''1 system ks omitted''\<rparr>])
                else
                  (case walk dt64 record_id segment_id keystrokes
                          \<lparr>valid_keystroke_count = 0, last_milestone = record_started_dt,
                           counts = pause_counts, all_pauses_data = []\<rparr> of
                     Inl err \<Rightarrow> Inl err
                   | Inr st \<Rightarrow>
                       if valid_keystroke_count st > 0 then
                         let last_pause_ms = record_ended_dt - last_milestone st
                         in Inr (categorize_pause (counts st) last_pause_ms,
                                 valid_keystroke_count st,
                                 all_pauses_data st @
                                   [\<lparr>audit_record_id = record_id, audit_segment_id = segment_id,
                                     pause_duration = Some last_pause_ms, audit_notes = []\<rparr>])
                       else Inr (counts st, keystrokes_count, all_pauses_data st))))"

text \<open>
  One iteration of \<open>for record in records\<close>: the attribute reads in source order, the
  pause computation, and the summary row.
\<close>

definition process_record :: "datetime64 \<Rightarrow> element \<Rightarrow> error + (summary_row \<times> audit_row list)" where
  "process_record dt64 r =
     (case datetime_attr dt64 r ''started'' of Inl err \<Rightarrow> Inl err | Inr record_started_dt \<Rightarrow>
     (case datetime_attr dt64 r ''stopped'' of Inl err \<Rightarrow> Inl err | Inr record_ended_dt \<Rightarrow>
     (case get_attr r ''id'' of Inl err \<Rightarrow> Inl err | Inr record_id \<Rightarrow>
     (case get_attr r ''segmentid'' of Inl err \<Rightarrow> Inl err | Inr segment_id \<Rightarrow>
     (case get_attr r ''activemiliseconds'' of Inl err \<Rightarrow> Inl err | Inr active_ms \<Rightarrow>
     (case count_pauses dt64 record_id segment_id record_started_dt record_ended_dt
             (findall_ks r) of
        Inl err \<Rightarrow> Inl err
      | Inr (pc, keystrokes_count, audit) \<Rightarrow>
          Inr (\<lparr>col_record_id = record_id, col_segment_id = segment_id,
                col_duration_300 = duration_300 pc, col_count_300 = count_300 pc,
                col_duration_500 = duration_500 pc, col_count_500 = count_500 pc,
                col_duration_1s = duration_1000 pc, col_count_1s = count_1000 pc,
                col_keystrokes = keystrokes_count, col_active_ms = active_ms,
                col_record_duration = record_ended_dt - record_started_dt,
                col_total_duration = total_duration pc\<rparr>,
               audit)))))))"

text \<open>
  The whole loop over the records of a document: rows accumulate, and the first exception
  ends the run with no table at all.
\<close>

fun process_records ::
  "datetime64 \<Rightarrow> element list \<Rightarrow> summary_row list \<Rightarrow> audit_row list \<Rightarrow>
     error + (summary_row list \<times> audit_row list)" where
  "process_records dt64 [] categorized_data all_data = Inr (categorized_data, all_data)"
| "process_records dt64 (r # rs) categorized_data all_data =
     (case process_record dt64 r of
        Inl err \<Rightarrow> Inl err
      | Inr (row, audit) \<Rightarrow>
          process_records dt64 rs (categorized_data @ [row]) (all_data @ audit))"

section \<open>Notions used in the statements\<close>


text \<open>The pauses an audit trail records, in order: the rows whose duration is not \<open>None\<close>.\<close>

definition pauses_of :: "audit_row list \<Rightarrow> int list" where
  "pauses_of rows = List.map_filter pause_duration rows"

text \<open>The events of a list the filter accepts, and those it rejects.\<close>

definition valid_events :: "element list \<Rightarrow> element list" where
  "valid_events keystrokes = filter (\<lambda>k. valid_keystroke k = Inr True) keystrokes"

definition invalid_events :: "element list \<Rightarrow> element list" where
  "invalid_events keystrokes = filter (\<lambda>k. valid_keystroke k = Inr False) keystrokes"

text \<open>
  Whether the filter reads an attribute the event lacks, given short-circuit evaluation:
  \<open>origin\<close> is always read, \<open>system\<close> after a non-empty \<open>origin\<close>, \<open>key\<close> after
  both are non-empty; when the first test is false, \<open>selection\<close> is read, and then each
  next attribute of the second test only while the conjuncts before it hold.
\<close>

definition reads_absent_2 :: "element \<Rightarrow> bool" where
  "reads_absent_2 k \<longleftrightarrow>
     (case attrib k ''selection'' of
        None \<Rightarrow> True
      | Some selection \<Rightarrow> selection = [] \<and>
         (case attrib k ''text'' of
            None \<Rightarrow> True
          | Some txt \<Rightarrow> txt = [] \<and>
             (case attrib k ''key'' of
                None \<Rightarrow> True
              | Some key \<Rightarrow> key = [] \<and>
                 (case attrib k ''shift'' of
                    None \<Rightarrow> True
                  | Some shift \<Rightarrow> shift = ''False'' \<and>
                     (case attrib k ''ctrl'' of
                        None \<Rightarrow> True
                      | Some ctrl \<Rightarrow> ctrl = ''False'' \<and> attrib k ''alt'' = None)))))"

definition reads_absent :: "element \<Rightarrow> bool" where
  "reads_absent k \<longleftrightarrow>
     (case attrib k ''origin'' of
        None \<Rightarrow> True
      | Some origin \<Rightarrow>
         if origin = [] then reads_absent_2 k
         else (case attrib k ''system'' of
                 None \<Rightarrow> True
               | Some system \<Rightarrow>
                  if system = [] then reads_absent_2 k
                  else (case attrib k ''key'' of
                          None \<Rightarrow> True
                        | Some key \<Rightarrow> key \<noteq> [] \<and> reads_absent_2 k)))"

text \<open>
  The events and records on which the loop reads nothing absent and parses nothing
  unparsable: the filter raises no error, and an accepted event has a \<open>created\<close>
  attribute that \<open>np.datetime64\<close> accepts.
\<close>

definition event_ok :: "datetime64 \<Rightarrow> element \<Rightarrow> bool" where
  "event_ok dt64 k \<longleftrightarrow>
     (case valid_keystroke k of
        Inl err \<Rightarrow> False
      | Inr ok \<Rightarrow>
          \<not> ok \<or> (case attrib k ''created'' of None \<Rightarrow> False | Some s \<Rightarrow> dt64 s \<noteq> None))"

definition record_ok :: "datetime64 \<Rightarrow> element \<Rightarrow> bool" where
  "record_ok dt64 r \<longleftrightarrow>
     (case attrib r ''started'' of None \<Rightarrow> False | Some s \<Rightarrow> dt64 s \<noteq> None) \<and>
     (case attrib r ''stopped'' of None \<Rightarrow> False | Some s \<Rightarrow> dt64 s \<noteq> None) \<and>
     attrib r ''id'' \<noteq> None \<and> attrib r ''segmentid'' \<noteq> None \<and>
     attrib r ''activemiliseconds'' \<noteq> None \<and>
     list_all (event_ok dt64) (findall_ks r)"

text \<open>The five attributes the loop reads of every record.\<close>

definition record_attributes :: "string list" where
  "record_attributes = [''started'', ''stopped'', ''id'', ''segmentid'', ''activemiliseconds'']"

text \<open>The eight attributes \<open>valid_keystroke\<close> mentions.\<close>

definition filter_attributes :: "string list" where
  "filter_attributes =
     [''origin'', ''system'', ''key'', ''selection'', ''text'', ''shift'', ''ctrl'', ''alt'']"

section \<open>Example documents\<close>

text \<open>
  The values of \<open>np.datetime64\<close>, in milliseconds since the epoch, at the timestamps
  that occur in the examples below. No other string is parsed in them.
\<close>

definition dt64_table :: datetime64 where
  "dt64_table s =
     (if s = ''1970-01-01T00:00:00.000'' then Some 0
      else if s = ''1970-01-01T00:00:00.400'' then Some 400
      else if s = ''1970-01-01T00:00:00.900'' then Some 900
      else None)"

text \<open>A typed letter: a key is set.\<close>

definition ks_typed :: element where
  "ks_typed = Element ''ks''
     [''origin'' \<mapsto> [], ''system'' \<mapsto> ''False'', ''key'' \<mapsto> ''a'',
      ''selection'' \<mapsto> [], ''text'' \<mapsto> ''a'', ''shift'' \<mapsto> ''False'',
      ''ctrl'' \<mapsto> ''False'', ''alt'' \<mapsto> ''False'',
      ''created'' \<mapsto> ''1970-01-01T00:00:00.400''] []"

text \<open>An event with an origin, the system attribute \<open>False\<close> and no key.\<close>

definition ks_system :: element where
  "ks_system = Element ''ks''
     [''origin'' \<mapsto> ''app'', ''system'' \<mapsto> ''False'', ''key'' \<mapsto> [],
      ''selection'' \<mapsto> [], ''text'' \<mapsto> ''abc'', ''shift'' \<mapsto> ''False'',
      ''ctrl'' \<mapsto> ''False'', ''alt'' \<mapsto> ''False'',
      ''created'' \<mapsto> ''1970-01-01T00:00:00.400''] []"

text \<open>An event with no origin, selection, text or key and no modifier.\<close>

definition ks_blank :: element where
  "ks_blank = Element ''ks''
     [''origin'' \<mapsto> [], ''system'' \<mapsto> ''False'', ''key'' \<mapsto> [],
      ''selection'' \<mapsto> [], ''text'' \<mapsto> [], ''shift'' \<mapsto> ''False'',
      ''ctrl'' \<mapsto> ''False'', ''alt'' \<mapsto> ''False'',
      ''created'' \<mapsto> ''1970-01-01T00:00:00.400''] []"

text \<open>An event that carries only \<open>origin\<close>, \<open>selection\<close> and \<open>created\<close>.\<close>

definition ks_partial :: element where
  "ks_partial = Element ''ks''
     [''origin'' \<mapsto> [], ''selection'' \<mapsto> ''abc'',
      ''created'' \<mapsto> ''1970-01-01T00:00:00.400''] []"

text \<open>An event without the \<open>origin\<close> attribute.\<close>

definition ks_no_origin :: element where
  "ks_no_origin = Element ''ks''
     [''key'' \<mapsto> ''a'', ''created'' \<mapsto> ''1970-01-01T00:00:00.400''] []"

text \<open>A record of 900 ms around a given list of events.\<close>

definition record_with :: "element list \<Rightarrow> element" where
  "record_with keystrokes = Element ''Record''
     [''id'' \<mapsto> ''1'', ''segmentid'' \<mapsto> ''7'', ''activemiliseconds'' \<mapsto> ''250'',
      ''started'' \<mapsto> ''1970-01-01T00:00:00.000'',
      ''stopped'' \<mapsto> ''1970-01-01T00:00:00.900'']
     [Element ''KeyStrokes'' Map.empty keystrokes]"

section \<open>Evaluating the examples\<close>

lemma valid_keystroke_ks_typed: "valid_keystroke ks_typed = Inr True"
  by (simp add: valid_keystroke_def system_keystroke_def empty_keystroke_def and_then_def
      truthy_def falsy_def attr_is_def get_attr_def ks_typed_def)

lemma valid_keystroke_ks_system: "valid_keystroke ks_system = Inr False"
  by (simp add: valid_keystroke_def system_keystroke_def empty_keystroke_def and_then_def
      truthy_def falsy_def attr_is_def get_attr_def ks_system_def)

lemma valid_keystroke_ks_blank: "valid_keystroke ks_blank = Inr False"
  by (simp add: valid_keystroke_def system_keystroke_def empty_keystroke_def and_then_def
      truthy_def falsy_def attr_is_def get_attr_def ks_blank_def)

lemma valid_keystroke_ks_partial: "valid_keystroke ks_partial = Inr True"
  by (simp add: valid_keystroke_def system_keystroke_def empty_keystroke_def and_then_def
      truthy_def falsy_def attr_is_def get_attr_def ks_partial_def)

lemma tag_examples:
  "tag ks_typed = ''ks''" "tag ks_system = ''ks''" "tag ks_blank = ''ks''"
  "tag ks_partial = ''ks''"
  by (simp_all add: ks_typed_def ks_system_def ks_blank_def ks_partial_def)

lemma descendants_examples:
  "descendants ks_typed = []" "descendants ks_system = []" "descendants ks_blank = []"
  "descendants ks_partial = []"
  by (simp_all add: ks_typed_def ks_system_def ks_blank_def ks_partial_def)

lemma created_examples:
  "datetime_attr dt64_table ks_typed ''created'' = Inr 400"
  "datetime_attr dt64_table ks_partial ''created'' = Inr 400"
  by (simp_all add: datetime_attr_def get_attr_def dt64_table_def ks_typed_def ks_partial_def)

lemma record_with_attributes:
  "datetime_attr dt64_table (record_with kss) ''started'' = Inr 0"
  "datetime_attr dt64_table (record_with kss) ''stopped'' = Inr 900"
  "get_attr (record_with kss) ''id'' = Inr ''1''"
  "get_attr (record_with kss) ''segmentid'' = Inr ''7''"
  "get_attr (record_with kss) ''activemiliseconds'' = Inr ''250''"
  by (simp_all add: datetime_attr_def get_attr_def dt64_table_def record_with_def)

section \<open>Facts about the filter and the classifier\<close>

lemmas filter_defs = valid_keystroke_def system_keystroke_def empty_keystroke_def and_then_def
      truthy_def falsy_def attr_is_def get_attr_def

lemma valid_keystroke_raises_iff:
  "(\<exists>e. valid_keystroke k = Inl e) \<longleftrightarrow> reads_absent k"
  by (auto simp add: filter_defs reads_absent_def reads_absent_2_def split: option.splits if_splits)



lemma total_duration_step [simp]:
  "total_duration (categorize_pause c g) = total_duration c + g"
  by (simp add: categorize_pause_def Let_def)

lemma total_pause_ms_step [simp]:
  "total_pause_ms (categorize_pause c g) = total_pause_ms c"
  by (simp add: categorize_pause_def Let_def)

lemma pauses_of_simps [simp]:
  "pauses_of [] = []"
  "pauses_of (row # rows) =
     (case pause_duration row of None \<Rightarrow> pauses_of rows | Some d \<Rightarrow> d # pauses_of rows)"
  by (simp_all add: pauses_of_def map_filter_simps split: option.splits)

lemma pauses_of_append [simp]: "pauses_of (xs @ ys) = pauses_of xs @ pauses_of ys"
  by (simp add: pauses_of_def map_filter_def)

lemma walk_Cons_valid:
  "valid_keystroke k = Inr True \<Longrightarrow> datetime_attr dt64 k ''created'' = Inr t \<Longrightarrow>
   walk dt64 rid sid (k # rest) st =
     walk dt64 rid sid rest
       (st\<lparr>valid_keystroke_count := valid_keystroke_count st + 1,
           last_milestone := t,
           counts := categorize_pause (counts st) (t - last_milestone st),
           all_pauses_data := all_pauses_data st @
             [\<lparr>audit_record_id = rid, audit_segment_id = sid,
               pause_duration = Some (t - last_milestone st), audit_notes = []\<rparr>]\<rparr>)"
  by (simp add: Let_def)

lemma walk_Cons_invalid:
  "valid_keystroke k = Inr False \<Longrightarrow>
   walk dt64 rid sid (k # rest) st =
     walk dt64 rid sid rest
       (st\<lparr>all_pauses_data := all_pauses_data st @
             [\<lparr>audit_record_id = rid, audit_segment_id = sid,
               pause_duration = None, audit_notes = ''Omitted ks''\<rparr>]\<rparr>)"
  by simp

lemma walk_Cons_cases:
  assumes "walk dt64 rid sid (k # rest) st = Inr st'"
  obtains (valid) t where "valid_keystroke k = Inr True" "datetime_attr dt64 k ''created'' = Inr t"
  | (invalid) "valid_keystroke k = Inr False"
  using assms by (auto split: sum.splits if_splits)

text \<open>What a completed walk has done to the loop variables.\<close>

lemma walk_effect:
  "walk dt64 rid sid kss st = Inr st' \<Longrightarrow>
     (\<exists>rows. all_pauses_data st' = all_pauses_data st @ rows \<and>
        length rows = length kss \<and>
        length (pauses_of rows) = length (valid_events kss) \<and>
        counts st' = foldl categorize_pause (counts st) (pauses_of rows)) \<and>
     valid_keystroke_count st' = valid_keystroke_count st + length (valid_events kss) \<and>
     length kss = length (valid_events kss) + length (invalid_events kss) \<and>
     total_duration (counts st') =
       total_duration (counts st) + (last_milestone st' - last_milestone st) \<and>
     (valid_events kss = [] \<longrightarrow> last_milestone st' = last_milestone st)"
proof (induction kss arbitrary: st)
  case Nil
  then show ?case by (simp add: valid_events_def invalid_events_def)
next
  case (Cons k rest)
  from Cons.prems show ?case
  proof (cases rule: walk_Cons_cases)
    case (valid t)
    let ?st1 = "st\<lparr>valid_keystroke_count := valid_keystroke_count st + 1,
           last_milestone := t,
           counts := categorize_pause (counts st) (t - last_milestone st),
           all_pauses_data := all_pauses_data st @
             [\<lparr>audit_record_id = rid, audit_segment_id = sid,
               pause_duration = Some (t - last_milestone st), audit_notes = []\<rparr>]\<rparr>"
    from Cons.prems valid have w: "walk dt64 rid sid rest ?st1 = Inr st'"
      by (simp add: Let_def)
    from Cons.IH [OF w] valid(1) show ?thesis
      by (auto simp add: valid_events_def invalid_events_def)
  next
    case invalid
    let ?st1 = "st\<lparr>all_pauses_data := all_pauses_data st @
             [\<lparr>audit_record_id = rid, audit_segment_id = sid,
               pause_duration = None, audit_notes = ''Omitted ks''\<rparr>]\<rparr>"
    from Cons.prems invalid have w: "walk dt64 rid sid rest ?st1 = Inr st'"
      by simp
    from Cons.IH [OF w] invalid show ?thesis
      by (auto simp add: valid_events_def invalid_events_def)
  qed
qed

lemma walk_succeeds_iff:
  "(\<exists>st'. walk dt64 rid sid kss st = Inr st') \<longleftrightarrow> list_all (event_ok dt64) kss"
proof (induction kss arbitrary: st)
  case Nil
  then show ?case by simp
next
  case (Cons k rest)
  show ?case
  proof (cases "valid_keystroke k")
    case (Inl e)
    then show ?thesis by (simp add: event_ok_def)
  next
    case (Inr ok)
    show ?thesis
    proof (cases ok)
      case True
      show ?thesis
      proof (cases "datetime_attr dt64 k ''created''")
        case (Inl e)
        with Inr True show ?thesis
          by (auto simp add: event_ok_def datetime_attr_def get_attr_def split: option.splits)
      next
        case (Inr t)
        with \<open>valid_keystroke k = Inr ok\<close> True Cons.IH show ?thesis
          by (auto simp add: event_ok_def datetime_attr_def get_attr_def Let_def split: option.splits)
      qed
    next
      case False
      with Inr Cons.IH show ?thesis by (simp add: event_ok_def)
    qed
  qed
qed

section \<open>Facts about the pause computation of one record\<close>

lemma count_pauses_empty:
  "count_pauses dt64 rid sid t0 t1 [] =
     Inr (categorize_pause create_pause_counts_dict (t1 - t0), 0,
          [\<lparr>audit_record_id = rid, audit_segment_id = sid,
            pause_duration = Some (t1 - t0), audit_notes = ''No ks''\<rparr>])"
  by (simp add: count_pauses_def Let_def)

lemma count_pauses_single_invalid:
  "valid_keystroke k = Inr False \<Longrightarrow>
   count_pauses dt64 rid sid t0 t1 [k] =
     Inr (categorize_pause create_pause_counts_dict (t1 - t0), 0,
          [\<lparr>audit_record_id = rid, audit_segment_id = sid,
            pause_duration = Some (t1 - t0), audit_notes = ''1 system ks omitted''\<rparr>])"
  by (simp add: count_pauses_def one_invalid_def Let_def)

lemma one_invalid_False:
  "one_invalid kss = Inr False \<longleftrightarrow>
     length kss \<noteq> 1 \<or> (\<exists>k. kss = [k] \<and> valid_keystroke k = Inr True)"
  by (cases kss) (auto simp add: one_invalid_def split: sum.splits)

lemma one_invalid_True:
  "one_invalid kss = Inr True \<longleftrightarrow> (\<exists>k. kss = [k] \<and> valid_keystroke k = Inr False)"
  by (cases kss) (auto simp add: one_invalid_def split: sum.splits)

lemma count_pauses_walked:
  assumes "kss \<noteq> []" and "one_invalid kss = Inr False"
    and "walk dt64 rid sid kss
           \<lparr>valid_keystroke_count = 0, last_milestone = t0,
            counts = create_pause_counts_dict, all_pauses_data = []\<rparr> = Inr st"
  shows "count_pauses dt64 rid sid t0 t1 kss =
     (if valid_keystroke_count st > 0
      then Inr (categorize_pause (counts st) (t1 - last_milestone st),
                valid_keystroke_count st,
                all_pauses_data st @
                  [\<lparr>audit_record_id = rid, audit_segment_id = sid,
                    pause_duration = Some (t1 - last_milestone st), audit_notes = []\<rparr>])
      else Inr (counts st, length kss, all_pauses_data st))"
  using assms by (simp add: count_pauses_def Let_def)

lemma count_pauses_cases:
  assumes "count_pauses dt64 rid sid t0 t1 kss = Inr res"
  obtains (empty) "kss = []"
  | (single) k where "kss = [k]" "valid_keystroke k = Inr False"
  | (walked) st where "kss \<noteq> []" "one_invalid kss = Inr False"
      "walk dt64 rid sid kss
           \<lparr>valid_keystroke_count = 0, last_milestone = t0,
            counts = create_pause_counts_dict, all_pauses_data = []\<rparr> = Inr st"
proof (cases "kss = []")
  case True
  then show ?thesis by (rule empty)
next
  case False
  show ?thesis
  proof (cases "one_invalid kss")
    case (Inl e)
    with assms False show ?thesis by (simp add: count_pauses_def)
  next
    case (Inr b)
    show ?thesis
    proof (cases b)
      case True
      with Inr show ?thesis using single by (auto simp add: one_invalid_True)
    next
      case nb: False
      with Inr have oi: "one_invalid kss = Inr False" by simp
      show ?thesis
      proof (cases "walk dt64 rid sid kss
           \<lparr>valid_keystroke_count = 0, last_milestone = t0,
            counts = create_pause_counts_dict, all_pauses_data = []\<rparr>")
        case (Inl e)
        with assms False oi show ?thesis by (simp add: count_pauses_def)
      next
        case (Inr st)
        with False oi show ?thesis by (rule walked)
      qed
    qed
  qed
qed

lemma count_pauses_effect:
  assumes "count_pauses dt64 rid sid t0 t1 kss = Inr (pc, n, audit)"
  shows "pc = foldl categorize_pause create_pause_counts_dict (pauses_of audit)"
    and "total_duration pc = (if length kss \<le> 1 \<or> valid_events kss \<noteq> [] then t1 - t0 else 0)"
    and "valid_events kss \<noteq> [] \<Longrightarrow>
           length audit = length (invalid_events kss) + length (valid_events kss) + 1 \<and>
           n = length (valid_events kss)"
    and "kss = [] \<Longrightarrow> length audit = 1 \<and> n = 0"
    and "length kss = 1 \<Longrightarrow> valid_events kss = [] \<Longrightarrow> length audit = 1 \<and> n = 0"
    and "length kss > 1 \<Longrightarrow> valid_events kss = [] \<Longrightarrow>
           n = length kss \<and> pc = create_pause_counts_dict \<and> length audit = length kss \<and>
           pauses_of audit = []"
proof -
  have "pc = foldl categorize_pause create_pause_counts_dict (pauses_of audit) \<and>
    total_duration pc = (if length kss \<le> 1 \<or> valid_events kss \<noteq> [] then t1 - t0 else 0) \<and>
    (valid_events kss \<noteq> [] \<longrightarrow>
           length audit = length (invalid_events kss) + length (valid_events kss) + 1 \<and>
           n = length (valid_events kss)) \<and>
    (kss = [] \<longrightarrow> length audit = 1 \<and> n = 0) \<and>
    (length kss = 1 \<longrightarrow> valid_events kss = [] \<longrightarrow> length audit = 1 \<and> n = 0) \<and>
    (length kss > 1 \<longrightarrow> valid_events kss = [] \<longrightarrow>
           n = length kss \<and> pc = create_pause_counts_dict \<and> length audit = length kss \<and>
           pauses_of audit = [])"
    using assms
  proof (cases rule: count_pauses_cases)
    case empty
    with assms show ?thesis
      by (auto simp add: count_pauses_empty valid_events_def create_pause_counts_dict_def)
  next
    case (single k)
    with assms show ?thesis
      by (auto simp add: count_pauses_single_invalid valid_events_def create_pause_counts_dict_def)
  next
    case (walked st)
    let ?st0 = "\<lparr>valid_keystroke_count = 0, last_milestone = t0,
            counts = create_pause_counts_dict, all_pauses_data = []\<rparr>"
    from walk_effect [OF walked(3)] obtain rows where
      rows: "all_pauses_data st = rows" "length rows = length kss"
        "length (pauses_of rows) = length (valid_events kss)"
        "counts st = foldl categorize_pause create_pause_counts_dict (pauses_of rows)"
      and cnt: "valid_keystroke_count st = length (valid_events kss)"
      and len: "length kss = length (valid_events kss) + length (invalid_events kss)"
      and tot: "total_duration (counts st) = last_milestone st - t0"
      and same: "valid_events kss = [] \<longrightarrow> last_milestone st = t0"
      by (auto simp add: create_pause_counts_dict_def)
    show ?thesis
    proof (cases "valid_events kss = []")
      case True
      with cnt have "valid_keystroke_count st = 0" by simp
      with assms walked have res: "pc = counts st" "n = length kss" "audit = all_pauses_data st"
        by (simp_all add: count_pauses_walked)
      from True rows(3) have "pauses_of rows = []" by simp
      moreover from True walked(1,2) have "length kss > 1"
        by (cases kss) (auto simp add: one_invalid_False valid_events_def)
      ultimately show ?thesis using res rows True walked(1)
        by (simp add: create_pause_counts_dict_def)
    next
      case False
      with cnt have "valid_keystroke_count st > 0" by simp
      with assms walked have res: "pc = categorize_pause (counts st) (t1 - last_milestone st)"
        "n = valid_keystroke_count st"
        "audit = all_pauses_data st @
                  [\<lparr>audit_record_id = rid, audit_segment_id = sid,
                    pause_duration = Some (t1 - last_milestone st), audit_notes = []\<rparr>]"
        by (simp_all add: count_pauses_walked)
      with rows cnt len tot False walked(1) show ?thesis by simp
    qed
  qed
  then show "pc = foldl categorize_pause create_pause_counts_dict (pauses_of audit)"
    and "total_duration pc = (if length kss \<le> 1 \<or> valid_events kss \<noteq> [] then t1 - t0 else 0)"
    and "valid_events kss \<noteq> [] \<Longrightarrow>
           length audit = length (invalid_events kss) + length (valid_events kss) + 1 \<and>
           n = length (valid_events kss)"
    and "kss = [] \<Longrightarrow> length audit = 1 \<and> n = 0"
    and "length kss = 1 \<Longrightarrow> valid_events kss = [] \<Longrightarrow> length audit = 1 \<and> n = 0"
    and "length kss > 1 \<Longrightarrow> valid_events kss = [] \<Longrightarrow>
           n = length kss \<and> pc = create_pause_counts_dict \<and> length audit = length kss \<and>
           pauses_of audit = []"
    by blast+
qed

section \<open>Facts about one record and about the document loop\<close>

lemma process_record_cases:
  assumes "process_record dt64 r = Inr (row, audit)"
  obtains t0 t1 rid sid am pc n where
    "datetime_attr dt64 r ''started'' = Inr t0"
    "datetime_attr dt64 r ''stopped'' = Inr t1"
    "get_attr r ''id'' = Inr rid"
    "get_attr r ''segmentid'' = Inr sid"
    "get_attr r ''activemiliseconds'' = Inr am"
    "count_pauses dt64 rid sid t0 t1 (findall_ks r) = Inr (pc, n, audit)"
    "row = \<lparr>col_record_id = rid, col_segment_id = sid,
            col_duration_300 = duration_300 pc, col_count_300 = count_300 pc,
            col_duration_500 = duration_500 pc, col_count_500 = count_500 pc,
            col_duration_1s = duration_1000 pc, col_count_1s = count_1000 pc,
            col_keystrokes = n, col_active_ms = am,
            col_record_duration = t1 - t0,
            col_total_duration = total_duration pc\<rparr>"
  using assms by (auto simp add: process_record_def split: sum.splits prod.splits)

lemma count_pauses_succeeds_iff:
  "(\<exists>res. count_pauses dt64 rid sid t0 t1 kss = Inr res) \<longleftrightarrow> list_all (event_ok dt64) kss"
proof (cases "kss = []")
  case True
  then show ?thesis by (simp add: count_pauses_empty)
next
  case False
  show ?thesis
  proof (cases "one_invalid kss")
    case (Inl e)
    with False show ?thesis
      by (cases kss) (auto simp add: count_pauses_def one_invalid_def event_ok_def
          split: if_splits sum.splits)
  next
    case (Inr b)
    show ?thesis
    proof (cases b)
      case True
      with Inr obtain k where "kss = [k]" "valid_keystroke k = Inr False"
        by (auto simp add: one_invalid_True)
      then show ?thesis by (simp add: count_pauses_single_invalid event_ok_def)
    next
      case nb: False
      let ?st0 = "\<lparr>valid_keystroke_count = 0, last_milestone = t0,
            counts = create_pause_counts_dict, all_pauses_data = []\<rparr>"
      from walk_succeeds_iff [of dt64 rid sid kss ?st0] False Inr nb show ?thesis
        by (auto simp add: count_pauses_def Let_def split: sum.splits)
    qed
  qed
qed

lemma process_record_succeeds_iff:
  "(\<exists>res. process_record dt64 r = Inr res) \<longleftrightarrow> record_ok dt64 r"
proof -
  have "(\<exists>res. process_record dt64 r = Inr res) \<longleftrightarrow>
     (\<exists>t0 t1 rid sid am. datetime_attr dt64 r ''started'' = Inr t0 \<and>
        datetime_attr dt64 r ''stopped'' = Inr t1 \<and> get_attr r ''id'' = Inr rid \<and>
        get_attr r ''segmentid'' = Inr sid \<and> get_attr r ''activemiliseconds'' = Inr am \<and>
        (\<exists>res. count_pauses dt64 rid sid t0 t1 (findall_ks r) = Inr res))"
    by (auto simp add: process_record_def split: sum.splits prod.splits)
  also have "\<dots> \<longleftrightarrow> record_ok dt64 r"
    unfolding count_pauses_succeeds_iff
    by (auto simp add: record_ok_def datetime_attr_def get_attr_def split: option.splits)
  finally show ?thesis .
qed

lemma process_records_all_succeed:
  "process_records dt64 rs cd ad = Inr res \<Longrightarrow> r \<in> set rs \<Longrightarrow> \<exists>x. process_record dt64 r = Inr x"
  by (induction rs arbitrary: cd ad) (auto split: sum.splits)

lemma not_record_ok:
  assumes "(\<exists>a \<in> set record_attributes. attrib r a = None) \<or>
     (\<exists>k \<in> set (findall_ks r).
        reads_absent k \<or> (valid_keystroke k = Inr True \<and> attrib k ''created'' = None))"
  shows "\<not> record_ok dt64 r"
  using assms
proof
  assume "\<exists>a \<in> set record_attributes. attrib r a = None"
  then show ?thesis by (auto simp add: record_ok_def record_attributes_def)
next
  assume "\<exists>k \<in> set (findall_ks r).
        reads_absent k \<or> (valid_keystroke k = Inr True \<and> attrib k ''created'' = None)"
  then obtain k where k: "k \<in> set (findall_ks r)"
    and bad: "reads_absent k \<or> (valid_keystroke k = Inr True \<and> attrib k ''created'' = None)"
    by blast
  from bad have "\<not> event_ok dt64 k"
  proof
    assume "reads_absent k"
    then obtain e where "valid_keystroke k = Inl e"
      using valid_keystroke_raises_iff [of k] by blast
    then show ?thesis by (simp add: event_ok_def)
  next
    assume "valid_keystroke k = Inr True \<and> attrib k ''created'' = None"
    then show ?thesis by (simp add: event_ok_def)
  qed
  with k show ?thesis by (auto simp add: record_ok_def list_all_iff)
qed

section \<open>Runs of the examples\<close>

lemma findall_ks_record_with:
  "findall_ks (record_with kss) =
     filter (\<lambda>e. tag e = ''ks'') (concat (map (\<lambda>c. c # descendants c) kss))"
  by (simp add: findall_ks_def record_with_def)

lemmas run_defs = process_record_def record_with_attributes findall_ks_record_with tag_examples
  descendants_examples count_pauses_def one_invalid_def valid_keystroke_ks_typed
  valid_keystroke_ks_system valid_keystroke_ks_blank valid_keystroke_ks_partial
  created_examples Let_def categorize_pause_def create_pause_counts_dict_def

lemma run_typed:
  "process_record dt64_table (record_with [ks_typed]) =
     Inr (\<lparr>col_record_id = ''1'', col_segment_id = ''7'',
           col_duration_300 = 900, col_count_300 = 2,
           col_duration_500 = 500, col_count_500 = 1,
           col_duration_1s = 0, col_count_1s = 0,
           col_keystrokes = 1, col_active_ms = ''250'',
           col_record_duration = 900, col_total_duration = 900\<rparr>,
          [\<lparr>audit_record_id = ''1'', audit_segment_id = ''7'',
            pause_duration = Some 400, audit_notes = []\<rparr>,
           \<lparr>audit_record_id = ''1'', audit_segment_id = ''7'',
            pause_duration = Some 500, audit_notes = []\<rparr>])"
  by (simp add: run_defs)


lemma run_blank_twice:
  "process_record dt64_table (record_with [ks_blank, ks_blank]) =
     Inr (\<lparr>col_record_id = ''1'', col_segment_id = ''7'',
           col_duration_300 = 0, col_count_300 = 0,
           col_duration_500 = 0, col_count_500 = 0,
           col_duration_1s = 0, col_count_1s = 0,
           col_keystrokes = 2, col_active_ms = ''250'',
           col_record_duration = 900, col_total_duration = 0\<rparr>,
          [\<lparr>audit_record_id = ''1'', audit_segment_id = ''7'',
            pause_duration = None, audit_notes = ''Omitted ks''\<rparr>,
           \<lparr>audit_record_id = ''1'', audit_segment_id = ''7'',
            pause_duration = None, audit_notes = ''Omitted ks''\<rparr>])"
  by (simp add: run_defs)

lemma run_partial:
  "process_record dt64_table (record_with [ks_partial]) =
     Inr (\<lparr>col_record_id = ''1'', col_segment_id = ''7'',
           col_duration_300 = 900, col_count_300 = 2,
           col_duration_500 = 500, col_count_500 = 1,
           col_duration_1s = 0, col_count_1s = 0,
           col_keystrokes = 1, col_active_ms = ''250'',
           col_record_duration = 900, col_total_duration = 900\<rparr>,
          [\<lparr>audit_record_id = ''1'', audit_segment_id = ''7'',
            pause_duration = Some 400, audit_notes = []\<rparr>,
           \<lparr>audit_record_id = ''1'', audit_segment_id = ''7'',
            pause_duration = Some 500, audit_notes = []\<rparr>])"
  by (simp add: run_defs)

lemma run_system_typed:
  "process_record dt64_table (record_with [ks_system, ks_typed]) =
     Inr (\<lparr>col_record_id = ''1'', col_segment_id = ''7'',
           col_duration_300 = 900, col_count_300 = 2,
           col_duration_500 = 500, col_count_500 = 1,
           col_duration_1s = 0, col_count_1s = 0,
           col_keystrokes = 1, col_active_ms = ''250'',
           col_record_duration = 900, col_total_duration = 900\<rparr>,
          [\<lparr>audit_record_id = ''1'', audit_segment_id = ''7'',
            pause_duration = None, audit_notes = ''Omitted ks''\<rparr>,
           \<lparr>audit_record_id = ''1'', audit_segment_id = ''7'',
            pause_duration = Some 400, audit_notes = []\<rparr>,
           \<lparr>audit_record_id = ''1'', audit_segment_id = ''7'',
            pause_duration = Some 500, audit_notes = []\<rparr>])"
  by (simp add: run_defs)

lemma run_none:
  "process_record dt64_table (record_with []) =
     Inr (\<lparr>col_record_id = ''1'', col_segment_id = ''7'',
           col_duration_300 = 900, col_count_300 = 1,
           col_duration_500 = 900, col_count_500 = 1,
           col_duration_1s = 0, col_count_1s = 0,
           col_keystrokes = 0, col_active_ms = ''250'',
           col_record_duration = 900, col_total_duration = 900\<rparr>,
          [\<lparr>audit_record_id = ''1'', audit_segment_id = ''7'',
            pause_duration = Some 900, audit_notes = ''No ks''\<rparr>])"
  by (simp add: run_defs)

lemma run_system_once:
  "process_record dt64_table (record_with [ks_system]) =
     Inr (\<lparr>col_record_id = ''1'', col_segment_id = ''7'',
           col_duration_300 = 900, col_count_300 = 1,
           col_duration_500 = 900, col_count_500 = 1,
           col_duration_1s = 0, col_count_1s = 0,
           col_keystrokes = 0, col_active_ms = ''250'',
           col_record_duration = 900, col_total_duration = 900\<rparr>,
          [\<lparr>audit_record_id = ''1'', audit_segment_id = ''7'',
            pause_duration = Some 900, audit_notes = ''1 system ks omitted''\<rparr>])"
  by (simp add: run_defs)

lemma count_system_typed:
  "count_pauses dt64_table ''1'' ''7'' 0 900 [ks_system, ks_typed] =
     Inr (\<lparr>duration_300 = 900, count_300 = 2, duration_500 = 500, count_500 = 1,
           duration_1000 = 0, count_1000 = 0, total_pause_ms = 0, total_duration = 900\<rparr>,
          1,
          [\<lparr>audit_record_id = ''1'', audit_segment_id = ''7'',
            pause_duration = None, audit_notes = ''Omitted ks''\<rparr>,
           \<lparr>audit_record_id = ''1'', audit_segment_id = ''7'',
            pause_duration = Some 400, audit_notes = []\<rparr>,
           \<lparr>audit_record_id = ''1'', audit_segment_id = ''7'',
            pause_duration = Some 500, audit_notes = []\<rparr>])"
  by (simp add: run_defs)

lemma valid_events_examples:
  "valid_events [ks_typed] = [ks_typed]"
  "valid_events [ks_system, ks_system] = []"
  "valid_events [ks_blank, ks_blank] = []"
  "valid_events [ks_system, ks_typed] = [ks_typed]"
  "valid_events [ks_system] = []"
  "invalid_events [ks_system, ks_typed] = [ks_system]"
  by (simp_all add: valid_events_def invalid_events_def valid_keystroke_ks_typed
      valid_keystroke_ks_system valid_keystroke_ks_blank)

lemma findall_ks_examples:
  "findall_ks (record_with []) = []"
  "findall_ks (record_with [ks_typed]) = [ks_typed]"
  "findall_ks (record_with [ks_system]) = [ks_system]"
  "findall_ks (record_with [ks_system, ks_system]) = [ks_system, ks_system]"
  "findall_ks (record_with [ks_blank, ks_blank]) = [ks_blank, ks_blank]"
  "findall_ks (record_with [ks_system, ks_typed]) = [ks_system, ks_typed]"
  "findall_ks (record_with [ks_partial]) = [ks_partial]"
  by (simp_all add: findall_ks_record_with tag_examples descendants_examples)

lemma attrib_examples:
  "attrib ks_system ''origin'' = Some ''app''" "attrib ks_system ''system'' = Some ''False''"
  "attrib ks_system ''key'' = Some []"
  "attrib ks_typed ''key'' = Some ''a''"
  "attrib ks_blank ''selection'' = Some []" "attrib ks_blank ''text'' = Some []"
  "attrib ks_blank ''key'' = Some []" "attrib ks_blank ''shift'' = Some ''False''"
  "attrib ks_blank ''ctrl'' = Some ''False''" "attrib ks_blank ''alt'' = Some ''False''"
  "attrib ks_partial ''system'' = None" "attrib ks_partial ''key'' = None"
  "attrib ks_partial ''text'' = None" "attrib ks_partial ''shift'' = None"
  "attrib ks_partial ''ctrl'' = None" "attrib ks_partial ''alt'' = None"
  "attrib ks_no_origin ''origin'' = None"
  by (simp_all add: ks_system_def ks_typed_def ks_blank_def ks_partial_def ks_no_origin_def)

lemma all_present_examples:
  "\<forall>a \<in> set filter_attributes. attrib ks_typed a \<noteq> None"
  "\<forall>a \<in> set filter_attributes. attrib ks_blank a \<noteq> None"
  by (simp_all add: filter_attributes_def ks_typed_def ks_blank_def)

lemma valid_keystroke_ks_no_origin: "valid_keystroke ks_no_origin = Inl (KeyError ''origin'')"
  by (simp add: filter_defs ks_no_origin_def)

lemma run_no_origin:
  "process_record dt64_table (record_with [ks_no_origin]) = Inl (KeyError ''origin'')"
proof -
  have "findall_ks (record_with [ks_no_origin]) = [ks_no_origin]"
    by (simp add: findall_ks_record_with ks_no_origin_def)
  then show ?thesis
    by (simp add: process_record_def record_with_attributes count_pauses_def one_invalid_def
        valid_keystroke_ks_no_origin Let_def)
qed

lemma no_origin_run:
  "process_records dt64_table [record_with [ks_typed], record_with [ks_no_origin]] [] []
          = Inl (KeyError ''origin'')"
  by (simp add: run_typed run_no_origin)

section \<open>Duration conservation\<close>




section \<open>Records whose events are all invalid\<close>

text \<open>
  C2. A record with two events, both rejected by the filter: no pause is classified and the
  audit trail holds the two \<open>Omitted ks\<close> rows only, but the \<open>Keystrokes\<close> column
  is 2, the number of events, since \<open>keystrokes_count\<close> is reset only in the two other
  branches.
\<close>

theorem all_invalid_keystrokes_counted:
  "findall_ks (record_with [ks_blank, ks_blank]) = [ks_blank, ks_blank] \<and>
   valid_events [ks_blank, ks_blank] = [] \<and>
   process_record dt64_table (record_with [ks_blank, ks_blank]) =
     Inr (\<lparr>col_record_id = ''1'', col_segment_id = ''7'',
           col_duration_300 = 0, col_count_300 = 0,
           col_duration_500 = 0, col_count_500 = 0,
           col_duration_1s = 0, col_count_1s = 0,
           col_keystrokes = 2, col_active_ms = ''250'',
           col_record_duration = 900, col_total_duration = 0\<rparr>,
          [\<lparr>audit_record_id = ''1'', audit_segment_id = ''7'',
            pause_duration = None, audit_notes = ''Omitted ks''\<rparr>,
           \<lparr>audit_record_id = ''1'', audit_segment_id = ''7'',
            pause_duration = None, audit_notes = ''Omitted ks''\<rparr>])"
  by (simp add: findall_ks_examples valid_events_examples run_blank_twice)

section \<open>The pause classifier is cumulative\<close>


section \<open>Audit completeness\<close>

text \<open>
  C4. A record whose attributes are all readable is processed without error, and its audit
  trail has M + N + 1 rows when N > 0 of its events are valid and M are invalid, one row
  when it has no event, and one row when it has exactly one event, an invalid one.
\<close>

theorem audit_row_count:
  assumes "record_ok dt64 r"
  shows "\<exists>row audit. process_record dt64 r = Inr (row, audit) \<and>
     (valid_events (findall_ks r) \<noteq> [] \<longrightarrow>
        length audit =
          length (invalid_events (findall_ks r)) + length (valid_events (findall_ks r)) + 1) \<and>
     (findall_ks r = [] \<longrightarrow> length audit = 1) \<and>
     (length (findall_ks r) = 1 \<and> valid_events (findall_ks r) = [] \<longrightarrow> length audit = 1)"
proof -
  from assms obtain row audit where run: "process_record dt64 r = Inr (row, audit)"
    using process_record_succeeds_iff [of dt64 r] by auto
  from run show ?thesis
  proof (cases rule: process_record_cases)
    case (1 t0 t1 rid sid am pc n)
    from count_pauses_effect(3-5) [OF 1(6)] run show ?thesis by auto
  qed
qed

text \<open>
  The three cases at records with one rejected and one accepted event, with no event, and
  with one rejected event.
\<close>

theorem audit_row_count_witness:
  "record_ok dt64_table (record_with [ks_system, ks_typed]) \<and>
   length (invalid_events (findall_ks (record_with [ks_system, ks_typed]))) = 1 \<and>
   length (valid_events (findall_ks (record_with [ks_system, ks_typed]))) = 1 \<and>
   (\<exists>row audit. process_record dt64_table (record_with [ks_system, ks_typed]) = Inr (row, audit)
      \<and> length audit = 1 + 1 + 1) \<and>
   record_ok dt64_table (record_with []) \<and> findall_ks (record_with []) = [] \<and>
   (\<exists>row audit. process_record dt64_table (record_with []) = Inr (row, audit)
      \<and> length audit = 1) \<and>
   record_ok dt64_table (record_with [ks_system]) \<and>
   length (findall_ks (record_with [ks_system])) = 1 \<and>
   valid_events (findall_ks (record_with [ks_system])) = [] \<and>
   (\<exists>row audit. process_record dt64_table (record_with [ks_system]) = Inr (row, audit)
      \<and> length audit = 1)"
proof -
  have ok: "record_ok dt64_table (record_with [ks_system, ks_typed])"
    "record_ok dt64_table (record_with [])" "record_ok dt64_table (record_with [ks_system])"
    using process_record_succeeds_iff [of dt64_table] run_system_typed run_none run_system_once
    by blast+
  from audit_row_count [OF ok(1)] audit_row_count [OF ok(2)] audit_row_count [OF ok(3)] ok
  show ?thesis
    by (auto simp add: findall_ks_examples valid_events_examples)
qed

section \<open>Filter correctness\<close>

text \<open>
  C5. An event with a non-empty origin, a non-empty system attribute and an empty key is
  invalid. An event that carries the eight attributes of the filter is invalid when its
  selection, text and key are empty and shift, ctrl and alt are the string \<open>False\<close>, and
  valid when its key is not empty.
\<close>

theorem filter_correct:
  "(attrib k ''origin'' = Some origin \<and> origin \<noteq> [] \<and>
    attrib k ''system'' = Some system \<and> system \<noteq> [] \<and>
    attrib k ''key'' = Some [] \<longrightarrow> valid_keystroke k = Inr False) \<and>
   ((\<forall>a \<in> set filter_attributes. attrib k a \<noteq> None) \<and>
    attrib k ''selection'' = Some [] \<and> attrib k ''text'' = Some [] \<and>
    attrib k ''key'' = Some [] \<and> attrib k ''shift'' = Some ''False'' \<and>
    attrib k ''ctrl'' = Some ''False'' \<and> attrib k ''alt'' = Some ''False''
      \<longrightarrow> valid_keystroke k = Inr False) \<and>
   ((\<forall>a \<in> set filter_attributes. attrib k a \<noteq> None) \<and>
    attrib k ''key'' = Some key \<and> key \<noteq> []
      \<longrightarrow> valid_keystroke k = Inr True)"
  by (auto simp add: filter_defs filter_attributes_def split: option.splits)

text \<open>
  The three parts at the example events.
\<close>

theorem filter_correct_witness:
  "(attrib ks_system ''origin'' = Some ''app'' \<and> ''app'' \<noteq> [] \<and>
    attrib ks_system ''system'' = Some ''False'' \<and> ''False'' \<noteq> [] \<and>
    attrib ks_system ''key'' = Some [] \<and> valid_keystroke ks_system = Inr False) \<and>
   (list_all (\<lambda>a. attrib ks_blank a \<noteq> None) filter_attributes \<and>
    attrib ks_blank ''selection'' = Some [] \<and> attrib ks_blank ''text'' = Some [] \<and>
    attrib ks_blank ''key'' = Some [] \<and> attrib ks_blank ''shift'' = Some ''False'' \<and>
    attrib ks_blank ''ctrl'' = Some ''False'' \<and> attrib ks_blank ''alt'' = Some ''False'' \<and>
    valid_keystroke ks_blank = Inr False) \<and>
   (list_all (\<lambda>a. attrib ks_typed a \<noteq> None) filter_attributes \<and>
    attrib ks_typed ''key'' = Some ''a'' \<and> ''a'' \<noteq> [] \<and>
    valid_keystroke ks_typed = Inr True)"
  using filter_correct [of ks_system "''app''" "''False''" "''a''"]
    filter_correct [of ks_blank "''app''" "''False''" "''a''"]
    filter_correct [of ks_typed "''app''" "''False''" "''a''"]
    all_present_examples
  by (simp add: attrib_examples list_all_iff)

section \<open>Scenario B\<close>



section \<open>Absent attributes\<close>

text \<open>
  C7, as stated, fails. An event that lacks \<open>system\<close>, \<open>key\<close>, \<open>text\<close>,
  \<open>shift\<close>, \<open>ctrl\<close> and \<open>alt\<close> is accepted by the filter, which stops
  reading at the empty origin and at the non-empty selection; the document is processed
  without error and the record gets an ordinary summary row.
\<close>

theorem absent_attribute_ignored_counterexample:
  "attrib ks_partial ''system'' = None \<and> attrib ks_partial ''key'' = None \<and>
   attrib ks_partial ''text'' = None \<and> attrib ks_partial ''shift'' = None \<and>
   attrib ks_partial ''ctrl'' = None \<and> attrib ks_partial ''alt'' = None \<and>
   findall_ks (record_with [ks_partial]) = [ks_partial] \<and>
   process_records dt64_table [record_with [ks_partial]] [] [] =
     Inr ([\<lparr>col_record_id = ''1'', col_segment_id = ''7'',
            col_duration_300 = 900, col_count_300 = 2,
            col_duration_500 = 500, col_count_500 = 1,
            col_duration_1s = 0, col_count_1s = 0,
            col_keystrokes = 1, col_active_ms = ''250'',
            col_record_duration = 900, col_total_duration = 900\<rparr>],
          [\<lparr>audit_record_id = ''1'', audit_segment_id = ''7'',
            pause_duration = Some 400, audit_notes = []\<rparr>,
           \<lparr>audit_record_id = ''1'', audit_segment_id = ''7'',
            pause_duration = Some 500, audit_notes = []\<rparr>])"
  by (simp add: attrib_examples findall_ks_examples run_partial)

text \<open>
  C7, amended. The run over a document raises, and returns no row at all, when one of its
  records lacks \<open>started\<close>, \<open>stopped\<close>, \<open>id\<close>, \<open>segmentid\<close> or
  \<open>activemiliseconds\<close>, or has an event of which the filter reads an absent attribute
  (\<open>origin\<close> always, the others as far as short-circuit evaluation gets), or has an
  event that the filter accepts and that lacks \<open>created\<close>.
\<close>

theorem absent_attribute_raises:
  assumes "r \<in> set rs"
    and "(\<exists>a \<in> set record_attributes. attrib r a = None) \<or>
     (\<exists>k \<in> set (findall_ks r).
        reads_absent k \<or> (valid_keystroke k = Inr True \<and> attrib k ''created'' = None))"
  shows "\<exists>e. process_records dt64 rs categorized_data all_data = Inl e"
proof (cases "process_records dt64 rs categorized_data all_data")
  case (Inl e)
  then show ?thesis by blast
next
  case (Inr res)
  from process_records_all_succeed [OF Inr assms(1)]
  have "record_ok dt64 r" using process_record_succeeds_iff [of dt64 r] by blast
  with not_record_ok [OF assms(2)] show ?thesis by blast
qed

text \<open>
  A document whose second record has an event without \<open>origin\<close>.
\<close>

theorem absent_attribute_raises_witness:
  "record_with [ks_no_origin] \<in> set [record_with [ks_typed], record_with [ks_no_origin]] \<and>
   ks_no_origin \<in> set (findall_ks (record_with [ks_no_origin])) \<and>
   attrib ks_no_origin ''origin'' = None \<and> reads_absent ks_no_origin \<and>
   (\<exists>e. process_records dt64_table [record_with [ks_typed], record_with [ks_no_origin]] [] []
          = Inl e) \<and>
   process_records dt64_table [record_with [ks_typed], record_with [ks_no_origin]] [] []
     = Inl (KeyError ''origin'')"
proof -
  have f: "findall_ks (record_with [ks_no_origin]) = [ks_no_origin]"
    by (simp add: findall_ks_record_with ks_no_origin_def)
  have m: "record_with [ks_no_origin] \<in> set [record_with [ks_typed], record_with [ks_no_origin]]"
    by simp
  have a: "reads_absent ks_no_origin"
    by (simp add: reads_absent_def attrib_examples)
  with f have h: "(\<exists>a \<in> set record_attributes. attrib (record_with [ks_no_origin]) a = None) \<or>
     (\<exists>k \<in> set (findall_ks (record_with [ks_no_origin])).
        reads_absent k \<or> (valid_keystroke k = Inr True \<and> attrib k ''created'' = None))"
    by simp
  from absent_attribute_raises [OF m h, of dt64_table "[]" "[]"] m f a show ?thesis
    by (simp add: attrib_examples no_origin_run del: process_records.simps)
qed

section \<open>The bucket ordering\<close>



section \<open>The field \<open>total_pause_ms\<close>\<close>

text \<open>
  C9. \<open>total_pause_ms\<close> starts at 0 and the classifier never changes it. The final
  accumulator of a record is the fresh one after one classifier call per pause of the audit
  trail, in order, so \<open>total_pause_ms\<close> is still 0 and no field changed otherwise. The
  \<open>Total duration\<close> column is the \<open>total_duration\<close> field of that accumulator.
\<close>

theorem total_pause_ms_untouched:
  "total_pause_ms create_pause_counts_dict = 0 \<and>
   total_pause_ms (categorize_pause c g) = total_pause_ms c \<and>
   (count_pauses dt64 rid sid t0 t1 kss = Inr (pc, n, audit) \<longrightarrow>
      pc = foldl categorize_pause create_pause_counts_dict (pauses_of audit) \<and>
      total_pause_ms pc = 0) \<and>
   (process_record dt64 r = Inr (row, rows) \<longrightarrow>
      col_total_duration row =
        total_duration (foldl categorize_pause create_pause_counts_dict (pauses_of rows)))"
proof (intro conjI impI)
  show "total_pause_ms create_pause_counts_dict = 0"
    by (simp add: create_pause_counts_dict_def)
  show "total_pause_ms (categorize_pause c g) = total_pause_ms c" by simp
next
  have fold_keeps: "total_pause_ms (foldl categorize_pause c0 gs) = total_pause_ms c0" for c0 gs
    by (induction gs arbitrary: c0) simp_all
  assume a: "count_pauses dt64 rid sid t0 t1 kss = Inr (pc, n, audit)"
  then show eq: "pc = foldl categorize_pause create_pause_counts_dict (pauses_of audit)"
    by (rule count_pauses_effect(1))
  have "total_pause_ms (foldl categorize_pause create_pause_counts_dict (pauses_of audit)) = 0"
    by (simp add: fold_keeps create_pause_counts_dict_def)
  with eq show "total_pause_ms pc = 0" by simp
next
  assume "process_record dt64 r = Inr (row, rows)"
  then show "col_total_duration row =
        total_duration (foldl categorize_pause create_pause_counts_dict (pauses_of rows))"
  proof (cases rule: process_record_cases)
    case (1 t0' t1' rid' sid' am pc' n')
    from count_pauses_effect(1) [OF 1(6)] 1(7) show ?thesis by simp
  qed
qed

text \<open>
  The statement at a record with one rejected and one accepted event.
\<close>

theorem total_pause_ms_untouched_witness:
  "count_pauses dt64_table ''1'' ''7'' 0 900 [ks_system, ks_typed] =
     Inr (\<lparr>duration_300 = 900, count_300 = 2, duration_500 = 500, count_500 = 1,
           duration_1000 = 0, count_1000 = 0, total_pause_ms = 0, total_duration = 900\<rparr>,
          1,
          [\<lparr>audit_record_id = ''1'', audit_segment_id = ''7'',
            pause_duration = None, audit_notes = ''Omitted ks''\<rparr>,
           \<lparr>audit_record_id = ''1'', audit_segment_id = ''7'',
            pause_duration = Some 400, audit_notes = []\<rparr>,
           \<lparr>audit_record_id = ''1'', audit_segment_id = ''7'',
            pause_duration = Some 500, audit_notes = []\<rparr>]) \<and>
   \<lparr>duration_300 = 900, count_300 = 2, duration_500 = 500, count_500 = 1,
     duration_1000 = 0, count_1000 = 0, total_pause_ms = 0, total_duration = 900\<rparr> =
     foldl categorize_pause create_pause_counts_dict
       (pauses_of
          [\<lparr>audit_record_id = ''1'', audit_segment_id = ''7'',
            pause_duration = None, audit_notes = ''Omitted ks''\<rparr>,
           \<lparr>audit_record_id = ''1'', audit_segment_id = ''7'',
            pause_duration = Some 400, audit_notes = []\<rparr>,
           \<lparr>audit_record_id = ''1'', audit_segment_id = ''7'',
            pause_duration = Some 500, audit_notes = []\<rparr>]) \<and>
   (\<exists>row rows. process_record dt64_table (record_with [ks_system, ks_typed]) = Inr (row, rows) \<and>
      col_total_duration row =
        total_duration (foldl categorize_pause create_pause_counts_dict (pauses_of rows)))"
proof -
  let ?pc = "\<lparr>duration_300 = 900, count_300 = 2, duration_500 = 500, count_500 = 1,
     duration_1000 = 0, count_1000 = 0, total_pause_ms = 0, total_duration = 900\<rparr>"
  let ?audit = "[\<lparr>audit_record_id = ''1'', audit_segment_id = ''7'',
            pause_duration = None, audit_notes = ''Omitted ks''\<rparr>,
           \<lparr>audit_record_id = ''1'', audit_segment_id = ''7'',
            pause_duration = Some 400, audit_notes = []\<rparr>,
           \<lparr>audit_record_id = ''1'', audit_segment_id = ''7'',
            pause_duration = Some 500, audit_notes = []\<rparr>]"
  let ?row = "\<lparr>col_record_id = ''1'', col_segment_id = ''7'',
           col_duration_300 = 900, col_count_300 = 2,
           col_duration_500 = 500, col_count_500 = 1,
           col_duration_1s = 0, col_count_1s = 0,
           col_keystrokes = 1, col_active_ms = ''250'',
           col_record_duration = 900, col_total_duration = 900\<rparr>"
  have c: "count_pauses dt64_table ''1'' ''7'' 0 900 [ks_system, ks_typed] = Inr (?pc, 1, ?audit)"
    by (rule count_system_typed)
  have p: "process_record dt64_table (record_with [ks_system, ks_typed]) = Inr (?row, ?audit)"
    by (rule run_system_typed)
  note t = total_pause_ms_untouched [where ?dt64.0 = dt64_table and rid = "''1''" and sid = "''7''"
      and ?t0.0 = 0 and ?t1.0 = 900 and kss = "[ks_system, ks_typed]" and pc = ?pc and n = 1
      and audit = ?audit and r = "record_with [ks_system, ks_typed]" and row = ?row
      and rows = ?audit]
  from t c have "?pc = foldl categorize_pause create_pause_counts_dict (pauses_of ?audit)"
    by blast
  moreover from t p have "col_total_duration ?row =
        total_duration (foldl categorize_pause create_pause_counts_dict (pauses_of ?audit))"
    by blast
  ultimately show ?thesis using c p by blast
qed

section \<open>The system flag\<close>

text \<open>
  C10. The first test of the filter looks at the system attribute only for being non-empty:
  an event with a non-empty origin, any non-empty system attribute and an empty key is
  invalid.
\<close>

theorem system_flag_nonempty:
  assumes "attrib k ''origin'' = Some origin" and "origin \<noteq> []"
    and "attrib k ''system'' = Some system" and "system \<noteq> []"
    and "attrib k ''key'' = Some []"
  shows "valid_keystroke k = Inr False"
  using assms by (simp add: filter_defs)

text \<open>
  An event whose system attribute is the string \<open>False\<close>.
\<close>

theorem system_flag_nonempty_witness:
  "attrib ks_system ''origin'' = Some ''app'' \<and> ''app'' \<noteq> [] \<and>
   attrib ks_system ''system'' = Some ''False'' \<and> ''False'' \<noteq> [] \<and>
   attrib ks_system ''key'' = Some [] \<and> valid_keystroke ks_system = Inr False"
proof -
  have h: "attrib ks_system ''origin'' = Some ''app''" "''app'' \<noteq> []"
    "attrib ks_system ''system'' = Some ''False''" "''False'' \<noteq> []"
    "attrib ks_system ''key'' = Some []"
    by (simp_all add: attrib_examples)
  from system_flag_nonempty [OF h] h show ?thesis by simp
qed

end
